theory Spec2Isabelle
  imports Main "HOL-Library.Word"
begin

section \<open>Values of the standard library and of autocert\<close>

text \<open>
  A Go \<open>error\<close> is identified with its message; a nil error is \<open>None\<close>.
\<close>

type_synonym error = string

text \<open>
  \<open>autocert.Cache\<close> is an interface; the only implementation the package builds is
  \<open>autocert.DirCache(dir)\<close>. A nil interface is \<open>None\<close>.
\<close>

datatype Cache = DirCache string

text \<open>
  \<open>autocert.Manager\<close>. \<open>Prompt\<close> is a function of the terms-of-service URL,
  \<open>HostPolicy\<close> a function of the host name that returns an error to reject it.
\<close>

record Manager =
  Prompt :: "(string \<Rightarrow> bool) option"
  Cache :: "Cache option"
  HostPolicy :: "(string \<Rightarrow> error option) option"
  RenewBefore :: int
  Email :: string
  ForceRSA :: bool

text \<open>
  The value of a \<open>GetCertificate\<close> field: the method value \<open>m.GetCertificate\<close> of a
  manager (it carries the manager it is bound to), or some function of the caller.
\<close>

datatype GetCertificateFunc = Manager_GetCertificate Manager | Caller_GetCertificate nat

text \<open>\<open>tls.Config\<close>, with the fields a caller of this package typically sets.\<close>

record tls_Config =
  GetCertificate :: "GetCertificateFunc option"
  NextProtos :: "string list"
  MinVersion :: "16 word"
  MaxVersion :: "16 word"
  CipherSuites :: "16 word list"
  ClientAuth :: int
  ServerName :: string
  InsecureSkipVerify :: bool

text \<open>\<open>autocert.AcceptTOS\<close> accepts any terms of service.\<close>

definition AcceptTOS :: "string \<Rightarrow> bool" where
  "AcceptTOS tosURL = True"

text \<open>
  A string of printable ASCII characters as \<open>fmt\<close> prints it under \<open>%q\<close>: in double
  quotes, with a backslash before a double quote and before a backslash.
\<close>

fun escaped :: "string \<Rightarrow> string" where
  "escaped [] = []"
| "escaped (c # cs) =
     (if c = CHR 0x22 \<or> c = CHR 0x5C then CHR 0x5C # c # escaped cs else c # escaped cs)"

definition quoted :: "string \<Rightarrow> string" where
  "quoted s = CHR 0x22 # escaped s @ [CHR 0x22]"

text \<open>
  \<open>autocert.HostWhitelist(hosts...)\<close>. The library converts every listed name with
  \<open>idna.Lookup.ToASCII\<close> and keeps the result; a name the conversion refuses is left out.
  The policy then allows a host exactly when it is one of the kept names, compared as it
  is given. The conversion is the first argument: \<open>None\<close> when it refuses the name.
\<close>

definition HostWhitelist ::
    "(string \<Rightarrow> string option) \<Rightarrow> string list \<Rightarrow> string \<Rightarrow> error option" where
  "HostWhitelist toASCII hosts =
     (let whitelist = List.map_filter toASCII hosts
      in (\<lambda>host. if host \<notin> set whitelist
                  then Some (''acme/autocert: host '' @ quoted host
                             @ '' not configured in HostWhitelist'')
                  else None))"



text \<open>
  \<open>(*autocert.Manager).TLSConfig\<close>: a fresh configuration whose certificate callback is the
  manager's and whose protocol list enables HTTP/2 and the TLS-ALPN challenge; every other
  field has Go's zero value.
\<close>

definition TLSConfig :: "Manager \<Rightarrow> tls_Config" where
  "TLSConfig m =
     \<lparr> GetCertificate = Some (Manager_GetCertificate m),
       NextProtos = [''h2'', ''http/1.1'', ''acme-tls/1''],
       MinVersion = 0, MaxVersion = 0, CipherSuites = [], ClientAuth = 0,
       ServerName = [], InsecureSkipVerify = False \<rparr>"

section \<open>NewTlsConfig\<close>

text \<open>
  What \<open>NewTlsConfig\<close> takes from outside the sources: the directory \<open>cacheDir()\<close>
  names (a helper of the package that is not among the sources), the outcome of
  \<open>os.MkdirAll\<close> for a path and a permission, and the conversion \<open>idna.Lookup.ToASCII\<close>
  that \<open>autocert.HostWhitelist\<close> applies to the listed names.
\<close>

record Host_os =
  cacheDir :: string
  MkdirAll :: "string \<Rightarrow> nat \<Rightarrow> error option"
  ToASCII :: "string \<Rightarrow> string option"

text \<open>
  The function returns the configuration; the lines it hands to \<open>log.Printf\<close> are
  returned beside it.
\<close>

definition NewTlsConfig :: "Host_os \<Rightarrow> string list \<Rightarrow> tls_Config \<times> string list" where
  "NewTlsConfig os domains =
     (let m0 = \<lparr> Prompt = Some AcceptTOS, Cache = None, HostPolicy = None,
                 RenewBefore = 0, Email = [], ForceRSA = False \<rparr>;
          m1 = (if length domains > 0 then m0\<lparr>HostPolicy := Some (HostWhitelist (ToASCII os) domains)\<rparr>
                else m0);
          dir = cacheDir os
      in case MkdirAll os dir 448 of
           Some err \<Rightarrow>
             (TLSConfig m1, [''warning: autocert.NewListener not using a cache: '' @ err])
         | None \<Rightarrow> (TLSConfig (m1\<lparr>Cache := Some (DirCache dir)\<rparr>), []))"

section \<open>Server options\<close>

text \<open>A transporter constructor, as handed to \<open>route.SetTransporter\<close>.\<close>

datatype NewTransporter = standard_NewTransporter | netpoll_NewTransporter

text \<open>\<open>config.Options\<close>, with the fields the options below assign.\<close>

record Options =
  Addr :: string
  Network :: string
  TLS :: "tls_Config option"
  ReadTimeout :: int
  DisableKeepalive :: bool
  H2C :: bool

text \<open>
  An option's function mutates the options object; \<open>WithTransport\<close> and \<open>WithTLS\<close> also
  assign the transporter variable of package \<open>route\<close>. Both are the state an option works on.
\<close>

record Config_state =
  options :: Options
  defaultTransporter :: NewTransporter

type_synonym Option = "Config_state \<Rightarrow> Config_state"

definition WithReadTimeout :: "int \<Rightarrow> Option" where
  "WithReadTimeout t = (\<lambda>s. s\<lparr>options := (options s)\<lparr>ReadTimeout := t\<rparr>\<rparr>)"

definition WithHostPorts :: "string \<Rightarrow> Option" where
  "WithHostPorts hp = (\<lambda>s. s\<lparr>options := (options s)\<lparr>Addr := hp\<rparr>\<rparr>)"

definition WithKeepAlive :: "bool \<Rightarrow> Option" where
  "WithKeepAlive b = (\<lambda>s. s\<lparr>options := (options s)\<lparr>DisableKeepalive := \<not> b\<rparr>\<rparr>)"

definition WithNetwork :: "string \<Rightarrow> Option" where
  "WithNetwork nw = (\<lambda>s. s\<lparr>options := (options s)\<lparr>Network := nw\<rparr>\<rparr>)"

definition WithTLS :: "tls_Config \<Rightarrow> Option" where
  "WithTLS cfg =
     (\<lambda>s. s\<lparr>defaultTransporter := standard_NewTransporter,
            options := (options s)\<lparr>TLS := Some cfg\<rparr>\<rparr>)"

definition WithTransport :: "NewTransporter \<Rightarrow> Option" where
  "WithTransport transporter = (\<lambda>s. s\<lparr>defaultTransporter := transporter\<rparr>)"

definition WithH2C :: "bool \<Rightarrow> Option" where
  "WithH2C enable = (\<lambda>s. s\<lparr>options := (options s)\<lparr>H2C := enable\<rparr>\<rparr>)"

section \<open>Requests, handlers and servers\<close>

text \<open>
  Of a request the package reads the host and the path-and-query of its URI
  (\<open>ctx.Request.URI().Host()\<close> and \<open>ctx.Request.URI().RequestURI()\<close>); the router reads the
  method and the path. Of a response it sets the status code and the Location header.
\<close>

record HTTP_Request =
  Method :: string
  Path :: string
  Host :: string
  RequestURI :: string

record HTTP_Response =
  StatusCode :: nat
  Location :: "string option"

record RequestContext =
  Request :: HTTP_Request
  Response :: HTTP_Response

type_synonym HandlerFunc = "RequestContext \<Rightarrow> RequestContext"

definition StatusMovedPermanently :: nat where
  "StatusMovedPermanently = 301"

definition Redirect :: "nat \<Rightarrow> string \<Rightarrow> RequestContext \<Rightarrow> RequestContext" where
  \<comment> \<open>Modelled from the spec: \<open>(*frame.Context).Redirect\<close> is not among the sources; it
      issues a redirect response with the given status code to the given target.\<close>
  "Redirect statusCode uri c =
     c\<lparr>Response := (Response c)\<lparr>StatusCode := statusCode, Location := Some uri\<rparr>\<rparr>"

text \<open>
  A server: the options it was built from, the transporter chosen at construction, its
  routes by method and path, and the handler for requests that match no route.
\<close>

record Frame =
  server_options :: Options
  transporter :: NewTransporter
  routes :: "string \<times> string \<Rightarrow> HandlerFunc option"
  noRoute :: "HandlerFunc option"

definition Default :: "Config_state \<Rightarrow> Option list \<Rightarrow> Frame" where
  \<comment> \<open>Modelled from the spec: \<open>frame.Default\<close> is not among the sources; the options are
      applied to a mutable options object, one after the other in the order given, before
      the server is constructed. The first argument holds the default options and the
      transporter variable as they are before the call.\<close>
  "Default st opts =
     (let st' = foldl (\<lambda>s opt. opt s) st opts
      in \<lparr> server_options = options st', transporter = defaultTransporter st',
           routes = (\<lambda>k. None), noRoute = None \<rparr>)"

definition NoRoute :: "HandlerFunc \<Rightarrow> Frame \<Rightarrow> Frame" where
  \<comment> \<open>Modelled from the spec: \<open>(*frame.Frame).NoRoute\<close> is not among the sources; it
      installs the handler invoked for every unmatched request.\<close>
  "NoRoute f h = h\<lparr>noRoute := Some f\<rparr>"

definition ServeHTTP :: "Frame \<Rightarrow> HTTP_Request \<Rightarrow> HTTP_Response" where
  \<comment> \<open>Modelled from the spec: the router is not among the sources; a request that matches
      a route goes to that route's handler, any other request to the no-route handler.\<close>
  "ServeHTTP h req =
     (let c = \<lparr> Request = req, Response = \<lparr> StatusCode = 200, Location = None \<rparr> \<rparr>;
          c404 = c\<lparr>Response := (Response c)\<lparr>StatusCode := 404\<rparr>\<rparr>
      in case routes h (Method req, Path req) of
           Some f \<Rightarrow> Response (f c)
         | None \<Rightarrow> (case noRoute h of Some f \<Rightarrow> Response (f c404) | None \<Rightarrow> Response c404))"

section \<open>NewServerWithManagerAndTlsConfig\<close>

text \<open>
  What the builder reads from its surroundings: the pair \<open>getCacheDir()\<close> returns (a helper
  of the package that is not among the sources) and the state the options start from.
\<close>

record Builder_env =
  getCacheDir :: "Cache option \<times> error option"
  initial :: Config_state

text \<open>
  The builder returns the server. It assigns through both pointers it is given, so the
  model returns the manager and the configuration as they are after the call, and the lines
  handed to \<open>log.Println\<close>. A nil \<open>tlsc\<close> is \<open>None\<close>.
\<close>

record Built =
  server :: Frame
  manager :: Manager
  config :: tls_Config
  logged :: "string list"

definition NewServerWithManagerAndTlsConfig ::
    "Builder_env \<Rightarrow> Manager \<Rightarrow> tls_Config option \<Rightarrow> Option list \<Rightarrow> Built" where
  "NewServerWithManagerAndTlsConfig env m tlsc opts =
     (let (m1, lg) =
            (if Cache m = None
             then (case getCacheDir env of
                     (c, e) \<Rightarrow> (m\<lparr>Cache := c\<rparr>, (case e of None \<Rightarrow> [] | Some msg \<Rightarrow> [msg])))
             else (m, []));
          tlsc1 = (case tlsc of None \<Rightarrow> TLSConfig m1 | Some t \<Rightarrow> t);
          defaultTLSConfig = TLSConfig m1;
          tlsc2 = tlsc1\<lparr>GetCertificate := GetCertificate defaultTLSConfig\<rparr>;
          tlsc3 = tlsc2\<lparr>NextProtos := NextProtos defaultTLSConfig\<rparr>;
          opts1 = opts @ [WithHostPorts '':https'',
                          WithTransport standard_NewTransporter,
                          WithTLS tlsc3]
      in \<lparr> server = Default (initial env) opts1, manager = m1, config = tlsc3, logged = lg \<rparr>)"

section \<open>Contexts\<close>

text \<open>
  Of a \<open>context.Context\<close> the package reads the value stored under a key and waits on
  the channel \<open>Done()\<close> returns. \<open>Done\<close> says whether that channel is ever closed,
  that is, whether cancellation is ever requested. Keys of different types never meet.
\<close>

datatype Key = tlsContextKey string | other_Key string

record Context =
  Value :: "Key \<Rightarrow> string option"
  Done :: bool

definition Background :: Context where
  "Background = \<lparr> Value = (\<lambda>k. None), Done = False \<rparr>"

definition WithValue :: "Context \<Rightarrow> Key \<Rightarrow> string \<Rightarrow> Context" where
  "WithValue parent k v = parent\<lparr>Value := (Value parent)(k \<mapsto> v)\<rparr>"

definition ctxKey :: Key where
  "ctxKey = tlsContextKey ''autls''"

definition todoCtx :: Context where
  "todoCtx = WithValue Background ctxKey ''done''"

section \<open>Task groups\<close>

text \<open>
  What a blocking call does in one execution: \<open>None\<close> when it never returns,
  \<open>Some r\<close> when it returns the error \<open>r\<close> (\<open>Some None\<close> for nil).
\<close>

type_synonym outcome = "error option option"

text \<open>
  \<open>errgroup.Group\<close>: a counter of the functions started with \<open>Go\<close> that have not
  returned yet, and the first non-nil error one of them returned. \<open>Wait\<close> blocks until the
  counter is zero and then returns that error.
\<close>

record Group =
  wg :: nat
  err :: "error option"

definition zero_Group :: Group where
  "zero_Group = \<lparr> wg = 0, err = None \<rparr>"

definition Go :: "Group \<Rightarrow> Group" where
  "Go g = g\<lparr>wg := wg g + 1\<rparr>"

definition returned :: "error option \<Rightarrow> Group \<Rightarrow> Group" where
  "returned r g =
     g\<lparr>err := (case r of
                  None \<Rightarrow> err g
                | Some e \<Rightarrow> (case err g of None \<Rightarrow> Some e | Some e0 \<Rightarrow> Some e0)),
       wg := wg g - 1\<rparr>"

definition Wait :: "Group \<Rightarrow> outcome" where
  "Wait g = (if wg g = 0 then Some (err g) else None)"

text \<open>
  A group whose functions are listed in the order in which they return (one that never
  returns stands anywhere): all are started, those that return report in turn, and the
  caller waits.
\<close>

definition run_group :: "outcome list \<Rightarrow> outcome" where
  "run_group tasks =
     Wait (foldl (\<lambda>g t. case t of None \<Rightarrow> g | Some r \<Rightarrow> returned r g)
                 (foldl (\<lambda>g t. Go g) zero_Group tasks) tasks)"

text \<open>Functions given with the time at which they return, put in that order.\<close>

definition in_return_order :: "(nat \<times> outcome) list \<Rightarrow> outcome list" where
  "in_return_order ts = map snd (sort_key fst ts)"

section \<open>The orchestrator\<close>

datatype Server = redirect | secure

datatype Task = spin_redirect | spin_secure | watcher

text \<open>
  One execution, as far as the servers and the scheduler decide it: what \<open>Spin\<close> of each
  server does, given whether \<open>Shutdown\<close> is issued to that server (an error it ends with
  is what stopped the listener); what \<open>Shutdown\<close> of each server does and when it returns;
  when each of the three functions of the group returns; and the option state
  \<open>frame.Default\<close> starts from.
\<close>

record World =
  Spin :: "Server \<Rightarrow> bool \<Rightarrow> outcome"
  Shutdown :: "Server \<Rightarrow> outcome"
  shutdown_returns_at :: "Server \<Rightarrow> nat"
  returns_at :: "Task \<Rightarrow> nat"
  defaults :: Config_state

definition redirect_handler :: HandlerFunc where
  "redirect_handler ctx =
     (let target = ''https://'' @ Host (Request ctx) @ RequestURI (Request ctx)
      in Redirect StatusMovedPermanently target ctx)"

text \<open>
  The third function of the group. Beside its outcome it gives the servers it issued
  \<open>Shutdown\<close> to.
\<close>

definition shutdown_watcher :: "World \<Rightarrow> Context \<Rightarrow> outcome \<times> Server list" where
  "shutdown_watcher w ctx =
     (if Value ctx ctxKey \<noteq> None then (Some None, [])
      else if \<not> Done ctx then (None, [])
      else (run_group (in_return_order
                         [(shutdown_returns_at w redirect, Shutdown w redirect),
                          (shutdown_returns_at w secure, Shutdown w secure)]),
            [redirect, secure]))"

text \<open>
  \<open>run\<close>: its result, the servers \<open>Shutdown\<close> was issued to, and the redirect server it
  built. The two \<open>Spin\<close> functions return nil whatever \<open>Spin\<close> did.
\<close>

record Run_result =
  result :: outcome
  shutdowns :: "Server list"
  redirectServer :: Frame

definition run :: "World \<Rightarrow> Context \<Rightarrow> Frame \<Rightarrow> Run_result" where
  "run w ctx tlsServer =
     (let rs = NoRoute redirect_handler (Default (defaults w) [WithHostPorts '':http'']);
          (c, issued) = shutdown_watcher w ctx;
          a = (case Spin w redirect (redirect \<in> set issued) of
                 None \<Rightarrow> None | Some r \<Rightarrow> Some None);
          b = (case Spin w secure (secure \<in> set issued) of
                 None \<Rightarrow> None | Some r \<Rightarrow> Some None)
      in \<lparr> result = run_group (in_return_order
                                 [(returns_at w spin_redirect, a),
                                  (returns_at w spin_secure, b),
                                  (returns_at w watcher, c)]),
           shutdowns = issued,
           redirectServer = rs \<rparr>)"

definition RunWithContext :: "World \<Rightarrow> Context \<Rightarrow> Frame \<Rightarrow> Run_result" where
  "RunWithContext w ctx h = run w ctx h"

definition Run :: "World \<Rightarrow> Frame \<Rightarrow> Run_result" where
  "Run w h = run w todoCtx h"

text \<open>
  The first non-nil error among the functions that return, in the order listed: the
  error a group keeps.
\<close>

fun first_error :: "outcome list \<Rightarrow> error option" where
  "first_error [] = None"
| "first_error (Some (Some e) # ts) = Some e"
| "first_error (t # ts) = first_error ts"

section \<open>Concrete inputs\<close>

definition example_defaults :: Config_state where
  "example_defaults =
     \<lparr> options = \<lparr> Addr = '':8888'', Network = ''tcp'', TLS = None, ReadTimeout = 0,
                     DisableKeepalive = False, H2C = False \<rparr>,
       defaultTransporter = netpoll_NewTransporter \<rparr>"

definition example_server :: Frame where
  "example_server = Default example_defaults [WithHostPorts '':8443'']"

text \<open>
  The secure server cannot bind its port and \<open>Spin\<close> ends at once; the redirect server
  runs until it is shut down.
\<close>

definition bind_failure_world :: World where
  "bind_failure_world =
     \<lparr> Spin = (\<lambda>s issued. case s of
                  secure \<Rightarrow> Some (Some ''listen tcp :443: bind: address already in use'')
                | redirect \<Rightarrow> (if issued then Some None else None)),
       Shutdown = (\<lambda>s. Some None),
       shutdown_returns_at = (\<lambda>s. 0),
       returns_at = (\<lambda>t. 0),
       defaults = example_defaults \<rparr>"

text \<open>A context without values whose cancellation is requested.\<close>

definition cancelled_ctx :: Context where
  "cancelled_ctx = \<lparr> Value = (\<lambda>k. None), Done = True \<rparr>"

text \<open>Both servers run until shut down, and both \<open>Shutdown\<close> calls fail.\<close>

definition shutdown_failure_world :: World where
  "shutdown_failure_world =
     \<lparr> Spin = (\<lambda>s issued. if issued then Some None else None),
       Shutdown = (\<lambda>s. case s of
                      redirect \<Rightarrow> Some (Some ''redirect server: shutdown timed out'')
                    | secure \<Rightarrow> Some (Some ''secure server: shutdown timed out'')),
       shutdown_returns_at = (\<lambda>s. case s of redirect \<Rightarrow> 1 | secure \<Rightarrow> 2),
       returns_at = (\<lambda>t. case t of spin_redirect \<Rightarrow> 3 | spin_secure \<Rightarrow> 4 | watcher \<Rightarrow> 2),
       defaults = example_defaults \<rparr>"

text \<open>
  \<open>idna.Lookup.ToASCII\<close> on the two names the examples list: it lower-cases the ASCII
  letters of a name. The examples hand it no other name.
\<close>

definition example_ToASCII :: "string \<Rightarrow> string option" where
  "example_ToASCII h =
     (if h = ''Example.COM'' then Some ''example.com''
      else if h = ''example.com'' then Some ''example.com''
      else None)"

definition example_manager :: Manager where
  "example_manager =
     \<lparr> Prompt = Some AcceptTOS, Cache = None,
       HostPolicy = Some (HostWhitelist example_ToASCII [''example.com'']),
       RenewBefore = 0, Email = ''admin@example.com'', ForceRSA = False \<rparr>"

definition example_tlsc :: tls_Config where
  "example_tlsc =
     \<lparr> GetCertificate = Some (Caller_GetCertificate 7), NextProtos = [''http/1.1''],
       MinVersion = 0x0303, MaxVersion = 0, CipherSuites = [0x1301, 0xc02f], ClientAuth = 4,
       ServerName = ''example.com'', InsecureSkipVerify = False \<rparr>"

definition example_env :: Builder_env where
  "example_env =
     \<lparr> getCacheDir = (Some (DirCache ''/home/u/.cache/golang-autocert''), None),
       initial = example_defaults \<rparr>"

definition failing_os :: Host_os where
  "failing_os =
     \<lparr> cacheDir = ''/home/u/.cache/golang-autocert'',
       MkdirAll = (\<lambda>path perm. Some ''mkdir /home/u/.cache: permission denied''),
       ToASCII = example_ToASCII \<rparr>"

definition example_request :: HTTP_Request where
  "example_request =
     \<lparr> Method = ''POST'', Path = ''/a/b'', Host = ''example.com'',
       RequestURI = ''/a/b?x=1&y=%20z'' \<rparr>"

section \<open>What a task group returns\<close>

lemma wg_started: "wg (foldl (\<lambda>g t. Go g) g ts) = wg g + length ts"
  by (induction ts arbitrary: g) (simp_all add: Go_def)

lemma err_started: "err (foldl (\<lambda>g t. Go g) g ts) = err g"
  by (induction ts arbitrary: g) (simp_all add: Go_def)

lemma wg_reported:
  "wg (foldl (\<lambda>g t. case t of None \<Rightarrow> g | Some r \<Rightarrow> returned r g) g ts)
     = wg g - length (filter (\<lambda>t. t \<noteq> None) ts)"
  by (induction ts arbitrary: g) (auto simp: returned_def split: option.splits)

lemma err_reported:
  "err (foldl (\<lambda>g t. case t of None \<Rightarrow> g | Some r \<Rightarrow> returned r g) g ts)
     = (case err g of Some e \<Rightarrow> Some e | None \<Rightarrow> first_error ts)"
proof (induction ts arbitrary: g)
  case Nil
  show ?case by (simp split: option.splits)
next
  case (Cons t ts)
  show ?case
  proof (cases t)
    case None
    then show ?thesis using Cons.IH [of g] by (simp split: option.splits)
  next
    case (Some r)
    then show ?thesis using Cons.IH [of "returned r g"]
      by (cases r; cases "err g") (simp_all add: returned_def)
  qed
qed

lemma all_returned:
  "length ts - length (filter (\<lambda>t. t \<noteq> None) ts) = 0 \<longleftrightarrow> None \<notin> set ts"
proof -
  have "length (filter (\<lambda>t. t \<noteq> None) ts) + length (filter (\<lambda>t. \<not> t \<noteq> None) ts)
          = length ts"
    by (rule sum_length_filter_compl)
  then have "length ts - length (filter (\<lambda>t. t \<noteq> None) ts)
               = length (filter (\<lambda>t. t = None) ts)"
    by simp
  moreover have "(\<forall>x \<in> set ts. x \<noteq> None) \<longleftrightarrow> None \<notin> set ts" by metis
  ultimately show ?thesis by (simp only: length_0_conv filter_empty_conv not_not)
qed

text \<open>
  The caller of \<open>Wait\<close> is released exactly when every function has returned, and then
  gets the first non-nil error in the order of return.
\<close>

lemma run_group_eq:
  "run_group ts = (if None \<in> set ts then None else Some (first_error ts))"
  using all_returned [of ts]
  by (simp add: run_group_def Wait_def wg_reported err_reported wg_started err_started
        zero_Group_def)

lemma run_group2:
  "run_group (in_return_order [(t1, a), (t2, b)]) =
     (case a of None \<Rightarrow> None | Some r1 \<Rightarrow>
        (case b of None \<Rightarrow> None | Some r2 \<Rightarrow>
           Some (if t1 \<le> t2 then (case r1 of Some e \<Rightarrow> Some e | None \<Rightarrow> r2)
                 else (case r2 of Some e \<Rightarrow> Some e | None \<Rightarrow> r1))))"
  by (auto simp: run_group_eq in_return_order_def split: option.splits)

lemma first_error_only:
  "\<forall>t \<in> set ts. t = Some None \<or> t = Some r \<Longrightarrow> None \<notin> set ts \<Longrightarrow> Some r \<in> set ts
   \<Longrightarrow> first_error ts = r"
proof (induction ts)
  case Nil
  then show ?case by simp
next
  case (Cons t ts)
  show ?case
  proof (cases r)
    case None
    have "first_error xs = None" if "\<forall>t \<in> set xs. t = Some None" for xs
      using that by (induction xs) auto
    then show ?thesis using Cons.prems None by auto
  next
    case (Some e)
    then show ?thesis using Cons by (cases "t = Some r") auto
  qed
qed

text \<open>
  Two functions that return nil whenever they return, and a third: whatever the order of
  return, the group gives the third one's result once all three have returned.
\<close>

lemma run_group3:
  "run_group (in_return_order
                [(t1, case x of None \<Rightarrow> None | Some r \<Rightarrow> Some None),
                 (t2, case y of None \<Rightarrow> None | Some r \<Rightarrow> Some None), (t3, c)]) =
     (case x of None \<Rightarrow> None | Some r1 \<Rightarrow> (case y of None \<Rightarrow> None | Some r2 \<Rightarrow> c))"
proof (cases "x = None \<or> y = None \<or> c = None")
  case True
  then show ?thesis
    by (auto simp: run_group_eq in_return_order_def image_iff split: option.splits)
next
  case False
  then obtain r1 r2 r where x: "x = Some r1" and y: "y = Some r2" and c: "c = Some r"
    by auto
  let ?ts = "in_return_order [(t1, Some None), (t2, Some None), (t3, Some r)]"
  have s: "set ?ts = {Some None, Some r}" by (auto simp: in_return_order_def)
  then have "first_error ?ts = r" by (intro first_error_only) auto
  then show ?thesis using s x y c by (auto simp: run_group_eq)
qed

section \<open>The orchestrator's result\<close>

lemma run_result_eq:
  "result (run w ctx h) =
     (case Spin w redirect (redirect \<in> set (snd (shutdown_watcher w ctx))) of
        None \<Rightarrow> None
      | Some r1 \<Rightarrow>
          (case Spin w secure (secure \<in> set (snd (shutdown_watcher w ctx))) of
             None \<Rightarrow> None
           | Some r2 \<Rightarrow> fst (shutdown_watcher w ctx)))"
  by (simp add: run_def run_group3 split_beta Let_def)

lemma run_shutdowns_eq: "shutdowns (run w ctx h) = snd (shutdown_watcher w ctx)"
  by (simp add: run_def split_beta Let_def)

lemma watcher_cancelled:
  "Value ctx ctxKey = None \<Longrightarrow> Done ctx \<Longrightarrow>
   shutdown_watcher w ctx =
     (case Shutdown w redirect of
        None \<Rightarrow> None
      | Some r1 \<Rightarrow>
          (case Shutdown w secure of
             None \<Rightarrow> None
           | Some r2 \<Rightarrow>
               Some (if shutdown_returns_at w redirect \<le> shutdown_returns_at w secure
                     then (case r1 of Some e \<Rightarrow> Some e | None \<Rightarrow> r2)
                     else (case r2 of Some e \<Rightarrow> Some e | None \<Rightarrow> r1))),
      [redirect, secure])"
  by (simp add: shutdown_watcher_def run_group2)

lemma watcher_waiting:
  "Value ctx ctxKey = None \<Longrightarrow> \<not> Done ctx \<Longrightarrow> shutdown_watcher w ctx = (None, [])"
  by (simp add: shutdown_watcher_def)

lemma watcher_marked:
  "Value ctx ctxKey \<noteq> None \<Longrightarrow> shutdown_watcher w ctx = (Some None, [])"
  by (simp add: shutdown_watcher_def)

lemma todoCtx_marker: "Value todoCtx ctxKey = Some ''done''"
  by (simp add: todoCtx_def WithValue_def)

text \<open>
  C1 (amended). An error that ends a \<open>Spin\<close> call is not handed to the caller of \<open>run\<close>:
  each \<open>Spin\<close> function reports nil to the group. \<open>run\<close> returns only once both \<open>Spin\<close>
  calls and the shutdown watcher have returned, and its result is then the watcher's.
\<close>

theorem run_waits_for_all:
  "result (run w ctx h) =
     (case Spin w redirect (redirect \<in> set (snd (shutdown_watcher w ctx))) of
        None \<Rightarrow> None
      | Some r1 \<Rightarrow>
          (case Spin w secure (secure \<in> set (snd (shutdown_watcher w ctx))) of
             None \<Rightarrow> None
           | Some r2 \<Rightarrow> fst (shutdown_watcher w ctx)))
   \<and> result (RunWithContext w ctx h) = result (run w ctx h)"
  by (simp add: run_result_eq RunWithContext_def)

theorem run_waits_for_all_witness:
  "result (run bind_failure_world cancelled_ctx example_server) = Some None"
proof -
  have "shutdown_watcher bind_failure_world cancelled_ctx = (Some None, [redirect, secure])"
    by (simp add: watcher_cancelled cancelled_ctx_def bind_failure_world_def)
  then show ?thesis
    using run_waits_for_all [of bind_failure_world cancelled_ctx example_server]
    by (simp add: bind_failure_world_def)
qed

text \<open>
  The claim as stated fails: the secure server's \<open>Spin\<close> ends with a bind error and
  cancellation is never requested, yet \<open>run\<close> does not return; when cancellation is
  requested later, \<open>run\<close> returns nil, not the bind error.
\<close>

theorem spin_error_counterexample:
  "Spin bind_failure_world secure False
     = Some (Some ''listen tcp :443: bind: address already in use'')
   \<and> \<not> Done Background
   \<and> result (run bind_failure_world Background example_server) = None
   \<and> result (run bind_failure_world cancelled_ctx example_server) = Some None"
  by (simp add: run_result_eq bind_failure_world_def Background_def cancelled_ctx_def
        shutdown_watcher_def ctxKey_def run_group2)

text \<open>
  C2 (amended). When cancellation fires on a context without the marker, the watcher
  issues \<open>Shutdown\<close> to the redirect server and to the secure server, neither waiting for
  the other, and once both calls have returned it returns the first non-nil error in the
  order of return. When both calls fail, only the error of the call that returned first is
  reported; the other one is dropped.
\<close>

theorem shutdown_first_error:
  "Value ctx ctxKey = None \<Longrightarrow> Done ctx \<Longrightarrow>
   snd (shutdown_watcher w ctx) = [redirect, secure] \<and>
   fst (shutdown_watcher w ctx) =
     (case Shutdown w redirect of
        None \<Rightarrow> None
      | Some r1 \<Rightarrow>
          (case Shutdown w secure of
             None \<Rightarrow> None
           | Some r2 \<Rightarrow>
               Some (if shutdown_returns_at w redirect \<le> shutdown_returns_at w secure
                     then (case r1 of Some e \<Rightarrow> Some e | None \<Rightarrow> r2)
                     else (case r2 of Some e \<Rightarrow> Some e | None \<Rightarrow> r1))))"
  by (simp add: watcher_cancelled)

theorem shutdown_first_error_witness:
  "Value cancelled_ctx ctxKey = None \<and> Done cancelled_ctx \<and>
   snd (shutdown_watcher shutdown_failure_world cancelled_ctx) = [redirect, secure] \<and>
   fst (shutdown_watcher shutdown_failure_world cancelled_ctx)
     = Some (Some ''redirect server: shutdown timed out'')"
proof -
  have v: "Value cancelled_ctx ctxKey = None" and d: "Done cancelled_ctx"
    by (simp_all add: cancelled_ctx_def)
  show ?thesis
    using shutdown_first_error [OF v d, of shutdown_failure_world] v d
    by (simp add: shutdown_failure_world_def)
qed

text \<open>
  The claim as stated fails: both \<open>Shutdown\<close> calls fail, and what the watcher and
  \<open>run\<close> return is the redirect server's error alone.
\<close>

theorem shutdown_aggregate_counterexample:
  "Shutdown shutdown_failure_world redirect = Some (Some ''redirect server: shutdown timed out'')
   \<and> Shutdown shutdown_failure_world secure = Some (Some ''secure server: shutdown timed out'')
   \<and> fst (shutdown_watcher shutdown_failure_world cancelled_ctx)
        = Some (Some ''redirect server: shutdown timed out'')
   \<and> result (run shutdown_failure_world cancelled_ctx example_server)
        = Some (Some ''redirect server: shutdown timed out'')"
  by (simp add: run_result_eq watcher_cancelled cancelled_ctx_def shutdown_failure_world_def)

text \<open>
  C8. When the context carries a value under the package's key, the watcher returns nil
  at once and \<open>Shutdown\<close> is issued to neither server during that run.
\<close>

theorem marker_suppresses_shutdown:
  "Value ctx ctxKey \<noteq> None \<Longrightarrow>
   fst (shutdown_watcher w ctx) = Some None \<and> snd (shutdown_watcher w ctx) = [] \<and>
   shutdowns (run w ctx h) = [] \<and> shutdowns (RunWithContext w ctx h) = []"
  by (simp add: watcher_marked run_shutdowns_eq RunWithContext_def)

theorem marker_suppresses_shutdown_witness:
  "Value (WithValue cancelled_ctx ctxKey ''done'') ctxKey \<noteq> None \<and>
   Done (WithValue cancelled_ctx ctxKey ''done'') \<and>
   fst (shutdown_watcher shutdown_failure_world (WithValue cancelled_ctx ctxKey ''done'')) = Some None \<and>
   snd (shutdown_watcher shutdown_failure_world (WithValue cancelled_ctx ctxKey ''done'')) = [] \<and>
   shutdowns (run shutdown_failure_world (WithValue cancelled_ctx ctxKey ''done'') example_server) = []"
proof -
  have v: "Value (WithValue cancelled_ctx ctxKey ''done'') ctxKey \<noteq> None"
    by (simp add: WithValue_def)
  show ?thesis
    using marker_suppresses_shutdown [OF v, of shutdown_failure_world example_server] v
    by (simp add: WithValue_def cancelled_ctx_def)
qed

text \<open>
  C9. \<open>Run\<close> calls \<open>run\<close> with a context that carries the marker. So the watcher
  returns nil at once, \<open>Shutdown\<close> is issued to neither server, and \<open>Run\<close> returns
  (nil) exactly when both \<open>Spin\<close> calls return without having been shut down.
\<close>

theorem Run_never_shuts_down:
  "Run w h = run w todoCtx h \<and>
   Value todoCtx ctxKey = Some ''done'' \<and>
   shutdown_watcher w todoCtx = (Some None, []) \<and>
   shutdowns (Run w h) = [] \<and>
   result (Run w h) =
     (if Spin w redirect False = None \<or> Spin w secure False = None then None else Some None)"
  by (auto simp: Run_def todoCtx_marker watcher_marked run_shutdowns_eq run_result_eq split: option.splits)

theorem Run_never_shuts_down_witness:
  "Value todoCtx ctxKey = Some ''done'' \<and>
   shutdowns (Run bind_failure_world example_server) = [] \<and>
   result (Run bind_failure_world example_server) = None"
proof -
  have s: "Spin bind_failure_world redirect False = None"
    by (simp add: bind_failure_world_def)
  have "result (Run bind_failure_world example_server) =
          (if Spin bind_failure_world redirect False = None
              \<or> Spin bind_failure_world secure False = None then None else Some None)"
    using Run_never_shuts_down [of bind_failure_world example_server] by blast
  then have "result (Run bind_failure_world example_server) = None"
    using s by simp
  then show ?thesis
    using Run_never_shuts_down [of bind_failure_world example_server] by blast
qed

section \<open>The redirect handler\<close>

lemma redirect_handler_eq:
  "redirect_handler c =
     c\<lparr>Response := (Response c)\<lparr>StatusCode := 301,
          Location := Some (''https://'' @ Host (Request c) @ RequestURI (Request c))\<rparr>\<rparr>"
  by (simp add: redirect_handler_def Redirect_def StatusMovedPermanently_def Let_def)

lemma run_redirectServer:
  "redirectServer (run w ctx h) =
     \<lparr> server_options = (options (defaults w))\<lparr>Addr := '':http''\<rparr>,
       transporter = defaultTransporter (defaults w),
       routes = (\<lambda>k. None), noRoute = Some redirect_handler \<rparr>"
  by (simp add: run_def split_beta Let_def NoRoute_def Default_def WithHostPorts_def)

text \<open>
  C4. The handler \<open>run\<close> installs on the redirect server answers every request,
  whatever its method and path, with status 301 and the target \<open>https://\<close> followed by
  the request's host and its path-and-query, the latter taken as it is.
\<close>

theorem redirect_to_https:
  "noRoute (redirectServer (run w ctx h)) = Some redirect_handler
   \<and> Response (redirect_handler c) =
       (Response c)\<lparr>StatusCode := 301,
          Location := Some (''https://'' @ Host (Request c) @ RequestURI (Request c))\<rparr>
   \<and> Request (redirect_handler c) = Request c
   \<and> ServeHTTP (redirectServer (run w ctx h)) req =
       \<lparr> StatusCode = 301, Location = Some (''https://'' @ Host req @ RequestURI req) \<rparr>"
  by (simp add: run_redirectServer redirect_handler_eq ServeHTTP_def Let_def)

theorem redirect_to_https_witness:
  "ServeHTTP (redirectServer (run bind_failure_world Background example_server)) example_request
     = \<lparr> StatusCode = 301, Location = Some ''https://example.com/a/b?x=1&y=%20z'' \<rparr>"
  using redirect_to_https
          [of bind_failure_world Background example_server
              "\<lparr> Request = example_request,
                 Response = \<lparr> StatusCode = 404, Location = None \<rparr> \<rparr>"
              example_request]
  by (simp add: example_request_def)

section \<open>The configuration NewTlsConfig returns\<close>





text \<open>
  C7. When the cache directory cannot be created, \<open>NewTlsConfig\<close> logs one warning
  and returns the configuration of a manager without a cache: the certificate callback and
  the protocol list are there, and no error reaches the caller.
\<close>

theorem cache_failure_is_not_fatal:
  "MkdirAll os (cacheDir os) 448 = Some e \<Longrightarrow>
   NewTlsConfig os domains =
     (TLSConfig \<lparr> Prompt = Some AcceptTOS, Cache = None,
                  HostPolicy = (if domains = [] then None
                        else Some (HostWhitelist (ToASCII os) domains)),
                  RenewBefore = 0, Email = [], ForceRSA = False \<rparr>,
      [''warning: autocert.NewListener not using a cache: '' @ e])"
  by (simp add: NewTlsConfig_def Let_def)

theorem cache_failure_is_not_fatal_witness:
  "MkdirAll failing_os (cacheDir failing_os) 448 = Some ''mkdir /home/u/.cache: permission denied''
   \<and> snd (NewTlsConfig failing_os [''example.com'']) =
       [''warning: autocert.NewListener not using a cache: mkdir /home/u/.cache: permission denied'']
   \<and> NextProtos (fst (NewTlsConfig failing_os [''example.com''])) = [''h2'', ''http/1.1'', ''acme-tls/1'']
   \<and> GetCertificate (fst (NewTlsConfig failing_os [''example.com''])) =
       Some (Manager_GetCertificate
          \<lparr> Prompt = Some AcceptTOS, Cache = None,
            HostPolicy = Some (HostWhitelist example_ToASCII [''example.com'']),
            RenewBefore = 0, Email = [], ForceRSA = False \<rparr>)"
proof -
  have f: "MkdirAll failing_os (cacheDir failing_os) 448 = Some ''mkdir /home/u/.cache: permission denied''"
    by (simp add: failing_os_def)
  have t: "ToASCII failing_os = example_ToASCII"
    by (simp add: failing_os_def)
  show ?thesis
    using cache_failure_is_not_fatal [OF f, of "[''example.com'']"] f t
    by (simp add: TLSConfig_def)
qed

section \<open>The server NewServerWithManagerAndTlsConfig builds\<close>

lemma Default_append:
  "Default st (opts @ [WithHostPorts hp, WithTransport tr, WithTLS cfg]) =
     \<lparr> server_options = (options (foldl (\<lambda>s opt. opt s) st opts))\<lparr>Addr := hp, TLS := Some cfg\<rparr>,
       transporter = standard_NewTransporter, routes = (\<lambda>k. None), noRoute = None \<rparr>"
  by (simp add: Default_def WithHostPorts_def WithTransport_def WithTLS_def Let_def)

lemma builder_manager:
  "manager (NewServerWithManagerAndTlsConfig env m tlsc opts) =
     m\<lparr>Cache := (if Cache m = None then fst (getCacheDir env) else Cache m)\<rparr>"
  by (simp add: NewServerWithManagerAndTlsConfig_def split_beta Let_def)

lemma builder_config:
  "config (NewServerWithManagerAndTlsConfig env m tlsc opts) =
     (case tlsc of
        None \<Rightarrow> TLSConfig (manager (NewServerWithManagerAndTlsConfig env m tlsc opts))
      | Some t \<Rightarrow>
          t\<lparr>GetCertificate :=
               GetCertificate (TLSConfig (manager (NewServerWithManagerAndTlsConfig env m tlsc opts))),
            NextProtos :=
               NextProtos (TLSConfig (manager (NewServerWithManagerAndTlsConfig env m tlsc opts)))\<rparr>)"
  by (cases tlsc)
     (simp_all add: NewServerWithManagerAndTlsConfig_def split_beta Let_def TLSConfig_def)

lemma builder_server:
  "server (NewServerWithManagerAndTlsConfig env m tlsc opts) =
     \<lparr> server_options = (options (foldl (\<lambda>s opt. opt s) (initial env) opts))
          \<lparr>Addr := '':https'', TLS := Some (config (NewServerWithManagerAndTlsConfig env m tlsc opts))\<rparr>,
       transporter = standard_NewTransporter, routes = (\<lambda>k. None), noRoute = None \<rparr>"
  by (simp add: NewServerWithManagerAndTlsConfig_def split_beta Let_def Default_append)

text \<open>
  C3. For a configuration supplied by the caller, the certificate callback and the
  protocol list of the resulting configuration are the manager's defaults, whatever the
  caller had set; every other field is the caller's. The server is given that
  configuration.
\<close>

theorem merge_takes_manager_defaults:
  "GetCertificate (config (NewServerWithManagerAndTlsConfig env m (Some tlsc) opts))
     = Some (Manager_GetCertificate (manager (NewServerWithManagerAndTlsConfig env m (Some tlsc) opts)))
   \<and> GetCertificate (config (NewServerWithManagerAndTlsConfig env m (Some tlsc) opts))
     = GetCertificate (TLSConfig (manager (NewServerWithManagerAndTlsConfig env m (Some tlsc) opts)))
   \<and> NextProtos (config (NewServerWithManagerAndTlsConfig env m (Some tlsc) opts))
     = NextProtos (TLSConfig (manager (NewServerWithManagerAndTlsConfig env m (Some tlsc) opts)))
   \<and> MinVersion (config (NewServerWithManagerAndTlsConfig env m (Some tlsc) opts)) = MinVersion tlsc
   \<and> MaxVersion (config (NewServerWithManagerAndTlsConfig env m (Some tlsc) opts)) = MaxVersion tlsc
   \<and> CipherSuites (config (NewServerWithManagerAndTlsConfig env m (Some tlsc) opts)) = CipherSuites tlsc
   \<and> ClientAuth (config (NewServerWithManagerAndTlsConfig env m (Some tlsc) opts)) = ClientAuth tlsc
   \<and> ServerName (config (NewServerWithManagerAndTlsConfig env m (Some tlsc) opts)) = ServerName tlsc
   \<and> InsecureSkipVerify (config (NewServerWithManagerAndTlsConfig env m (Some tlsc) opts))
       = InsecureSkipVerify tlsc
   \<and> TLS (server_options (server (NewServerWithManagerAndTlsConfig env m (Some tlsc) opts)))
       = Some (config (NewServerWithManagerAndTlsConfig env m (Some tlsc) opts))"
  by (simp add: builder_config builder_server TLSConfig_def)

theorem merge_takes_manager_defaults_witness:
  "GetCertificate (config (NewServerWithManagerAndTlsConfig example_env example_manager
       (Some example_tlsc) [WithReadTimeout 5]))
     = Some (Manager_GetCertificate
         (example_manager\<lparr>Cache := Some (DirCache ''/home/u/.cache/golang-autocert'')\<rparr>))
   \<and> NextProtos (config (NewServerWithManagerAndTlsConfig example_env example_manager
       (Some example_tlsc) [WithReadTimeout 5])) = [''h2'', ''http/1.1'', ''acme-tls/1'']
   \<and> MinVersion (config (NewServerWithManagerAndTlsConfig example_env example_manager
       (Some example_tlsc) [WithReadTimeout 5])) = 0x0303
   \<and> CipherSuites (config (NewServerWithManagerAndTlsConfig example_env example_manager
       (Some example_tlsc) [WithReadTimeout 5])) = [0x1301, 0xc02f]"
  using merge_takes_manager_defaults [of example_env example_manager example_tlsc "[WithReadTimeout 5]"]
  by (simp add: builder_manager TLSConfig_def example_env_def example_manager_def example_tlsc_def)

text \<open>
  C10. The builder assigns through its arguments: of the caller's configuration only
  \<open>GetCertificate\<close> and \<open>NextProtos\<close> change, and of the manager only \<open>Cache\<close>, which
  receives what \<open>getCacheDir\<close> returned when it was nil and stays as it was otherwise.
\<close>

theorem builder_frame:
  "manager (NewServerWithManagerAndTlsConfig env m (Some tlsc) opts)
     = m\<lparr>Cache := (if Cache m = None then fst (getCacheDir env) else Cache m)\<rparr>
   \<and> config (NewServerWithManagerAndTlsConfig env m (Some tlsc) opts)
     = tlsc\<lparr>GetCertificate :=
              Some (Manager_GetCertificate
                      (manager (NewServerWithManagerAndTlsConfig env m (Some tlsc) opts))),
            NextProtos := [''h2'', ''http/1.1'', ''acme-tls/1'']\<rparr>"
  by (simp add: builder_config builder_manager TLSConfig_def)

theorem builder_frame_witness:
  "manager (NewServerWithManagerAndTlsConfig example_env example_manager (Some example_tlsc) [])
     = example_manager\<lparr>Cache := Some (DirCache ''/home/u/.cache/golang-autocert'')\<rparr>
   \<and> config (NewServerWithManagerAndTlsConfig example_env example_manager (Some example_tlsc) [])
     = example_tlsc\<lparr>GetCertificate :=
          Some (Manager_GetCertificate
                  (example_manager\<lparr>Cache := Some (DirCache ''/home/u/.cache/golang-autocert'')\<rparr>)),
          NextProtos := [''h2'', ''http/1.1'', ''acme-tls/1'']\<rparr>"
  using builder_frame [of example_env example_manager example_tlsc "[]"]
  by (simp add: example_env_def example_manager_def)

text \<open>
  C5 (amended). The server the builder returns always listens on \<open>:https\<close> and always
  uses the standard transport: the forced options are appended after the caller's, so an
  address or a transport set through the caller's options is overwritten.
\<close>

theorem builder_forces_address:
  "Addr (server_options (server (NewServerWithManagerAndTlsConfig env m tlsc opts))) = '':https''
   \<and> transporter (server (NewServerWithManagerAndTlsConfig env m tlsc opts)) = standard_NewTransporter"
  by (simp add: builder_server)

theorem builder_forces_address_witness:
  "Addr (server_options (server (NewServerWithManagerAndTlsConfig example_env example_manager None
      [WithTransport netpoll_NewTransporter, WithHostPorts '':8443'']))) = '':https''
   \<and> transporter (server (NewServerWithManagerAndTlsConfig example_env example_manager None
      [WithTransport netpoll_NewTransporter, WithHostPorts '':8443''])) = standard_NewTransporter"
  using builder_forces_address [of example_env example_manager None
      "[WithTransport netpoll_NewTransporter, WithHostPorts '':8443'']"]
  by simp

text \<open>
  The claim as stated fails: the caller passes \<open>WithHostPorts(":8443")\<close>, which alone
  would set that address, and the returned server's address is \<open>:https\<close>.
\<close>

theorem address_override_counterexample:
  "Addr (options (WithHostPorts '':8443'' example_defaults)) = '':8443''
   \<and> Addr (server_options (server (NewServerWithManagerAndTlsConfig example_env example_manager
        (Some example_tlsc) [WithHostPorts '':8443'']))) \<noteq> '':8443''
   \<and> Addr (server_options (server (NewServerWithManagerAndTlsConfig example_env example_manager
        (Some example_tlsc) [WithHostPorts '':8443'']))) = '':https''"
  by (simp add: builder_server WithHostPorts_def)

end
